theory Spec2Isabelle
  imports Complex_Main
begin

section \<open>Python values used by \<open>app.py\<close>\<close>

text \<open>
  The numbers that \<open>app.py\<close> obtains with \<open>float(...)\<close> are modelled as finite, exact
  reals: the arithmetic of the model is the arithmetic of the source without the rounding
  of IEEE doubles, and without the special values \<open>inf\<close> and \<open>nan\<close>. Python integers are
  \<open>int\<close>. Every exception the modelled code can raise is a value of \<open>py_error\<close>.
\<close>

datatype py_error = ZeroDivisionError | TypeError | ValueError | IntegrityError






section \<open>The solar recommendation (\<open>get_solar_recommendation\<close>)\<close>


















section \<open>Strings and dates\<close>

text \<open>Python's \<open>str(n)\<close> for a non-negative integer, and \<open>strftime\<close>'s zero padding.\<close>

definition digit_char :: "nat \<Rightarrow> char" where
  "digit_char n = ''0123456789'' ! n"

fun str_nat :: "nat \<Rightarrow> string" where
  "str_nat n = (if n < 10 then [digit_char n] else str_nat (n div 10) @ [digit_char (n mod 10)])"

declare str_nat.simps [simp del]

definition zfill :: "nat \<Rightarrow> string \<Rightarrow> string" where
  "zfill w s = replicate (w - length s) (CHR ''0'') @ s"

record datetime =
  year :: nat
  month :: nat
  day :: nat
  hour :: nat
  minute :: nat
  second :: nat

text \<open>\<open>strftime\<close> with the three formats the source uses.\<close>

definition strftime_Ymd :: "datetime \<Rightarrow> string" where
  "strftime_Ymd t = zfill 4 (str_nat (year t)) @ zfill 2 (str_nat (month t)) @ zfill 2 (str_nat (day t))"

definition strftime_YmdHMS :: "datetime \<Rightarrow> string" where
  "strftime_YmdHMS t =
     strftime_Ymd t @ zfill 2 (str_nat (hour t)) @ zfill 2 (str_nat (minute t))
       @ zfill 2 (str_nat (second t))"

definition strftime_Y_m_d :: "datetime \<Rightarrow> string" where
  "strftime_Y_m_d t =
     zfill 4 (str_nat (year t)) @ ''-'' @ zfill 2 (str_nat (month t)) @ ''-''
       @ zfill 2 (str_nat (day t))"

text \<open>
  \<open>str.strip()\<close>, \<open>str.replace('_', ' ')\<close>, \<open>str.title()\<close> and \<open>', '.join\<close>, on ASCII
  text.
\<close>

definition isspace :: "char \<Rightarrow> bool" where
  "isspace c \<longleftrightarrow>
     c \<in> set [CHR 0x09, CHR 0x0A, CHR 0x0B, CHR 0x0C, CHR 0x0D, CHR 0x1C, CHR 0x1D, CHR 0x1E,
              CHR 0x1F, CHR 0x20]"

definition strip :: "string \<Rightarrow> string" where
  "strip s = rev (dropWhile isspace (rev (dropWhile isspace s)))"

definition replace_underscore :: "string \<Rightarrow> string" where
  "replace_underscore s = map (\<lambda>c. if c = CHR ''_'' then CHR '' '' else c) s"

definition ascii_lowercase :: string where
  "ascii_lowercase = ''abcdefghijklmnopqrstuvwxyz''"

definition ascii_uppercase :: string where
  "ascii_uppercase = ''ABCDEFGHIJKLMNOPQRSTUVWXYZ''"

definition islower :: "char \<Rightarrow> bool" where
  "islower c \<longleftrightarrow> c \<in> set ascii_lowercase"

definition isupper :: "char \<Rightarrow> bool" where
  "isupper c \<longleftrightarrow> c \<in> set ascii_uppercase"

definition upper :: "char \<Rightarrow> char" where
  "upper c = (case map_of (zip ascii_lowercase ascii_uppercase) c of Some u \<Rightarrow> u | None \<Rightarrow> c)"

definition lower :: "char \<Rightarrow> char" where
  "lower c = (case map_of (zip ascii_uppercase ascii_lowercase) c of Some l \<Rightarrow> l | None \<Rightarrow> c)"

fun title_from :: "bool \<Rightarrow> string \<Rightarrow> string" where
  "title_from prev_cased [] = []"
| "title_from prev_cased (c # cs) =
     (if islower c \<or> isupper c
      then (if prev_cased then lower c else upper c) # title_from True cs
      else c # title_from False cs)"

definition title :: "string \<Rightarrow> string" where
  "title s = title_from False s"

fun join :: "string \<Rightarrow> string list \<Rightarrow> string" where
  "join sep [] = []"
| "join sep [x] = x"
| "join sep (x # y # ys) = x @ sep @ join sep (y # ys)"

section \<open>Requests, responses and the table of applications\<close>

text \<open>
  \<open>request.form\<close> is a dictionary from field names to text, \<open>request.files\<close> one from
  field names to the file name of the upload (an upload is present when its file name is
  not empty). What a request reads from outside is collected in \<open>env\<close>: the two clocks,
  the values \<open>random.randint(1000, 9999)\<close> returns (the k-th call of the request gets
  \<open>randint e k\<close>), the logged-in user of the session, werkzeug's \<open>secure_filename\<close>, and
  the parsers behind \<open>float(s)\<close> and \<open>int(s)\<close> on text, where \<open>None\<close> stands for
  \<open>ValueError\<close>. The decorators \<open>login_required\<close> and \<open>admin_required\<close> and the
  file system written by \<open>file.save\<close> are outside the model.
\<close>

type_synonym form = "string \<rightharpoonup> string"

type_synonym files = "string \<rightharpoonup> string"

datatype http_method = GET | POST

datatype response =
    Render_template string
  | Flash_redirect string string string
  | Abort nat

record env =
  float_of_str :: "string \<Rightarrow> real option"
  int_of_str :: "string \<Rightarrow> int option"
  secure_filename :: "string \<Rightarrow> string"
  now :: datetime
  utcnow :: datetime
  randint :: "nat \<Rightarrow> nat"
  session_user_id :: nat

text \<open>
  The model class. \<open>reference_number\<close>, \<open>submitted_at\<close> and \<open>updated_at\<close> are nullable
  columns that both creating handlers always fill; \<open>status\<close> and \<open>admin_notes\<close> can be
  set to NULL by the admin form. \<open>documents\<close> is the dictionary that the column stores as
  JSON text.
\<close>

record MeteringApplication =
  app_id :: nat
  user_id :: nat
  application_type :: string
  system_capacity :: real
  consumption_units :: int
  property_type :: "string option"
  property_address :: string
  ownership_type :: string
  reference_number :: string
  status :: "string option"
  submitted_at :: datetime
  updated_at :: datetime
  documents :: "string \<rightharpoonup> string"
  noc_message :: "string option"
  admin_notes :: "string option"
  app_estimated_cost :: real

definition float_str :: "env \<Rightarrow> string \<Rightarrow> py_error + real" where
  "float_str e s = (case float_of_str e s of None \<Rightarrow> Inl ValueError | Some x \<Rightarrow> Inr x)"

definition int_str :: "env \<Rightarrow> string \<Rightarrow> py_error + int" where
  "int_str e s = (case int_of_str e s of None \<Rightarrow> Inl ValueError | Some n \<Rightarrow> Inr n)"

text \<open>Truth value of \<open>request.form.get(...)\<close>: \<open>None\<close> and the empty text are false.\<close>

definition truthy :: "string option \<Rightarrow> bool" where
  "truthy v = (case v of None \<Rightarrow> False | Some s \<Rightarrow> s \<noteq> [])"

text \<open>
  \<open>db.session.add\<close> and \<open>db.session.commit\<close>: the primary key is assigned, and the
  \<open>unique\<close> constraint on \<open>reference_number\<close> makes the commit raise when the reference
  is already in the table.
\<close>

definition next_id :: "MeteringApplication list \<Rightarrow> nat" where
  "next_id db = Suc (fold max (map app_id db) 0)"

definition commit_add :: "MeteringApplication \<Rightarrow> MeteringApplication list \<Rightarrow> py_error + MeteringApplication list" where
  "commit_add a db =
     (if reference_number a \<in> set (map reference_number db) then Inl IntegrityError
      else Inr (db @ [a\<lparr>app_id := next_id db\<rparr>]))"

definition generate_reference :: "env \<Rightarrow> nat \<Rightarrow> string \<Rightarrow> string" where
  "generate_reference e k app_type =
     (let prefix =
            (case map_of [(''net'', ''NET''), (''gross'', ''GROSS''), (''simple_solar'', ''SOL'')] app_type of
               Some p \<Rightarrow> p
             | None \<Rightarrow> ''APP'');
          timestamp = strftime_Ymd (now e);
          random_num = randint e k
      in prefix @ ''-'' @ timestamp @ ''-'' @ str_nat random_num)"

text \<open>
  The upload loop of both handlers: \<open>docs\<close> is \<open>uploaded_docs\<close>, \<open>k\<close> counts the calls of
  \<open>random.randint\<close> made so far.
\<close>

fun save_uploads :: "env \<Rightarrow> files \<Rightarrow> string list \<Rightarrow> nat \<Rightarrow> (string \<rightharpoonup> string) \<Rightarrow> (string \<rightharpoonup> string) \<times> nat" where
  "save_uploads e fs [] k docs = (docs, k)"
| "save_uploads e fs (field # rest) k docs =
     (case fs field of
        None \<Rightarrow> save_uploads e fs rest k docs
      | Some filename \<Rightarrow>
          if filename = [] then save_uploads e fs rest k docs
          else save_uploads e fs rest (Suc k)
                 (docs(field \<mapsto>
                    ''uploads/'' @ field @ ''_'' @ strftime_YmdHMS (now e) @ ''_''
                      @ str_nat (randint e k) @ ''_'' @ secure_filename e filename)))"

text \<open>The message of the missing documents, lines 465 to 467 and 546 to 548.\<close>

definition missing_docs :: "string list \<Rightarrow> (string \<rightharpoonup> string) \<Rightarrow> string list" where
  "missing_docs required_docs uploaded_docs =
     map (\<lambda>d. title (replace_underscore d)) (filter (\<lambda>d. uploaded_docs d = None) required_docs)"

definition missing_message :: "string list \<Rightarrow> string" where
  "missing_message missing = ''Please upload required documents: '' @ join '', '' missing"

section \<open>Creating an application (\<open>apply_metering\<close>, \<open>apply_solar_setup\<close>)\<close>

text \<open>
  The two handlers, branch by branch; the result is the response, or the exception that
  escapes the handler, paired with the table after the request. The local variables
  \<open>system_capacity\<close> and \<open>consumption_units\<close> of the source are \<open>capacity\<close> and
  \<open>units\<close> here, the longer names being those of the columns. The column defaults
  (\<open>status\<close>, \<open>submitted_at\<close>, \<open>updated_at\<close>) are written into the new row, and
  \<open>app_id\<close> is a placeholder until the commit assigns it.
\<close>

definition apply_metering :: "env \<Rightarrow> http_method \<Rightarrow> form \<Rightarrow> files \<Rightarrow> MeteringApplication list \<Rightarrow> (py_error + response) \<times> MeteringApplication list" where
  "apply_metering e method form fs db =
     (if method \<noteq> POST then (Inr (Render_template ''apply_metering.html''), db)
      else
        case (case form ''system_capacity'' of None \<Rightarrow> Inl TypeError | Some s \<Rightarrow> float_str e s) of
          Inl err \<Rightarrow> (Inl err, db)
        | Inr capacity \<Rightarrow>
        case (case form ''consumption_units'' of None \<Rightarrow> Inr 0 | Some s \<Rightarrow> int_str e s) of
          Inl err \<Rightarrow> (Inl err, db)
        | Inr units \<Rightarrow>
        let application_type = form ''application_type'';
            property_type = form ''property_type'';
            property_address = form ''property_address'';
            ownership_type = (case form ''ownership_type'' of None \<Rightarrow> ''owner'' | Some s \<Rightarrow> s);
            noc_message = (case form ''noc_message'' of None \<Rightarrow> [] | Some s \<Rightarrow> s)
        in
        if \<not> (truthy application_type \<and> capacity \<noteq> 0 \<and> truthy property_address)
        then (Inr (Flash_redirect ''All required fields must be filled'' ''danger'' ''apply_metering''), db)
        else if capacity < 1 \<or> 50 < capacity
        then (Inr (Flash_redirect ''System capacity must be between 1kW and 50kW'' ''danger''
                     ''apply_metering''), db)
        else if application_type = Some ''net'' \<and> capacity < 5
        then (Inr (Flash_redirect ''Net metering requires system capacity of 5kW or greater''
                     ''danger'' ''apply_metering''), db)
        else
          let doc_fields =
                [''electricity_bill'', ''cnic_front'', ''cnic_back'']
                  @ (if ownership_type = ''owner'' then [''land_ownership''] else [''noc_document'']);
              (uploaded_docs, k) = save_uploads e fs doc_fields 0 Map.empty;
              required_docs =
                [''electricity_bill'', ''cnic_front'', ''cnic_back'']
                  @ (if ownership_type = ''owner'' then [''land_ownership''] else [])
          in
          if ownership_type \<noteq> ''owner'' \<and> ownership_type = ''tenant''
             \<and> uploaded_docs ''noc_document'' = None \<and> strip noc_message = []
          then (Inr (Flash_redirect
                       ''Tenants must provide either a NOC document (stamp paper) or a NOC message''
                       ''danger'' ''apply_metering''), db)
          else
            let missing = missing_docs required_docs uploaded_docs
            in
            if missing \<noteq> []
            then (Inr (Flash_redirect (missing_message missing) ''danger'' ''apply_metering''), db)
            else
              let application =
                    \<lparr>app_id = 0,
                     user_id = session_user_id e,
                     application_type = the application_type,
                     system_capacity = capacity,
                     consumption_units = units,
                     property_type = property_type,
                     property_address = the property_address,
                     ownership_type = ownership_type,
                     reference_number = generate_reference e k (the application_type),
                     status = Some ''pending'',
                     submitted_at = utcnow e,
                     updated_at = utcnow e,
                     documents = uploaded_docs,
                     noc_message = (if ownership_type = ''tenant'' then Some noc_message else None),
                     admin_notes = None,
                     app_estimated_cost = capacity * 80000\<rparr>
              in
              case commit_add application db of
                Inl err \<Rightarrow> (Inl err, db)
              | Inr db' \<Rightarrow>
                  (Inr (Flash_redirect
                          (''Application submitted successfully! Reference: ''
                             @ reference_number application)
                          ''success'' ''client_dashboard''), db'))"

definition apply_solar_setup :: "env \<Rightarrow> http_method \<Rightarrow> form \<Rightarrow> files \<Rightarrow> MeteringApplication list \<Rightarrow> (py_error + response) \<times> MeteringApplication list" where
  "apply_solar_setup e method form fs db =
     (if method \<noteq> POST then (Inr (Render_template ''apply_solar_setup.html''), db)
      else
        case (case form ''system_capacity'' of None \<Rightarrow> Inr 0 | Some s \<Rightarrow> float_str e s) of
          Inl err \<Rightarrow> (Inl err, db)
        | Inr capacity \<Rightarrow>
        let property_address = (case form ''property_address'' of None \<Rightarrow> [] | Some s \<Rightarrow> s);
            property_type = (case form ''property_type'' of None \<Rightarrow> ''residential'' | Some s \<Rightarrow> s)
        in
        case (case form ''consumption_units'' of None \<Rightarrow> Inr 0 | Some s \<Rightarrow> int_str e s) of
          Inl err \<Rightarrow> (Inl err, db)
        | Inr units \<Rightarrow>
        if \<not> (capacity \<noteq> 0 \<and> property_address \<noteq> [])
        then (Inr (Flash_redirect ''All required fields must be filled'' ''danger''
                     ''apply_solar_setup''), db)
        else if capacity < 1 \<or> 50 < capacity
        then (Inr (Flash_redirect ''System capacity must be between 1kW and 50kW'' ''danger''
                     ''apply_solar_setup''), db)
        else
          let (uploaded_docs, k) =
                save_uploads e fs [''electricity_bill'', ''cnic_front'', ''cnic_back''] 0 Map.empty;
              missing = missing_docs [''electricity_bill'', ''cnic_front'', ''cnic_back''] uploaded_docs
          in
          if missing \<noteq> []
          then (Inr (Flash_redirect (missing_message missing) ''danger'' ''apply_solar_setup''), db)
          else
            let application =
                  \<lparr>app_id = 0,
                   user_id = session_user_id e,
                   application_type = ''simple_solar'',
                   system_capacity = capacity,
                   consumption_units = units,
                   property_type = Some property_type,
                   property_address = property_address,
                   ownership_type = ''owner'',
                   reference_number = generate_reference e k ''simple_solar'',
                   status = Some ''pending'',
                   submitted_at = utcnow e,
                   updated_at = utcnow e,
                   documents = uploaded_docs,
                   noc_message = None,
                   admin_notes = None,
                   app_estimated_cost = capacity * 80000\<rparr>
            in
            case commit_add application db of
              Inl err \<Rightarrow> (Inl err, db)
            | Inr db' \<Rightarrow>
                (Inr (Flash_redirect
                        (''Solar setup application submitted! Reference: ''
                           @ reference_number application)
                        ''success'' ''client_dashboard''), db'))"

section \<open>The admin update (\<open>admin_application_detail\<close>)\<close>

text \<open>Lines 982 to 984: the three assignments of the POST branch.\<close>

definition admin_update :: "string option \<Rightarrow> string option \<Rightarrow> datetime \<Rightarrow> MeteringApplication \<Rightarrow> MeteringApplication" where
  "admin_update new_status new_notes t application =
     application\<lparr>status := new_status, admin_notes := new_notes, updated_at := t\<rparr>"

definition admin_application_detail :: "env \<Rightarrow> http_method \<Rightarrow> form \<Rightarrow> nat \<Rightarrow> MeteringApplication list \<Rightarrow> response \<times> MeteringApplication list" where
  "admin_application_detail e method form i db =
     (case find (\<lambda>a. app_id a = i) db of
        None \<Rightarrow> (Abort 404, db)
      | Some application \<Rightarrow>
          if method = POST
          then (Flash_redirect ''Application updated successfully'' ''success'' ''admin_applications'',
                map (\<lambda>a. if app_id a = i
                          then admin_update (form ''status'') (form ''admin_notes'') (utcnow e) a
                          else a) db)
          else (Render_template ''admin_application_detail.html'', db))"

section \<open>The status lookup (\<open>api_application_status\<close>)\<close>

record status_json =
  json_reference_number :: string
  json_type :: string
  json_capacity :: real
  json_status :: "string option"
  json_submitted_at :: string
  json_updated_at :: string

datatype api_response = Json_ok status_json | Json_error string nat

definition api_application_status :: "string \<Rightarrow> MeteringApplication list \<Rightarrow> api_response" where
  "api_application_status ref_number db =
     (case find (\<lambda>a. reference_number a = ref_number) db of
        None \<Rightarrow> Json_error ''Application not found'' 404
      | Some application \<Rightarrow>
          Json_ok \<lparr>json_reference_number = reference_number application,
                   json_type = application_type application,
                   json_capacity = system_capacity application,
                   json_status = status application,
                   json_submitted_at = strftime_Y_m_d (submitted_at application),
                   json_updated_at = strftime_Y_m_d (updated_at application)\<rparr>)"


section \<open>An environment and requests for examples\<close>

text \<open>
  A concrete \<open>env\<close> to run the handlers on: the parsers accept unsigned decimal numerals
  only, \<open>secure_filename\<close> leaves the name as it is, and the k-th random number is
  \<open>1000 + k\<close>.
\<close>

fun parse_nat_from :: "nat \<Rightarrow> string \<Rightarrow> nat option" where
  "parse_nat_from acc [] = Some acc"
| "parse_nat_from acc (c # cs) =
     (case map_of (zip ''0123456789'' [0, 1, 2, 3, 4, 5, 6, 7, 8, 9]) c of
        None \<Rightarrow> None
      | Some d \<Rightarrow> parse_nat_from (10 * acc + d) cs)"

definition parse_nat :: "string \<Rightarrow> nat option" where
  "parse_nat s = (if s = [] then None else parse_nat_from 0 s)"

definition example_env :: env where
  "example_env =
     \<lparr>float_of_str = (\<lambda>s. map_option real (parse_nat s)),
      int_of_str = (\<lambda>s. map_option int (parse_nat s)),
      secure_filename = (\<lambda>s. s),
      now = \<lparr>year = 2024, month = 3, day = 9, hour = 14, minute = 5, second = 30\<rparr>,
      utcnow = \<lparr>year = 2024, month = 3, day = 9, hour = 9, minute = 5, second = 30\<rparr>,
      randint = (\<lambda>k. 1000 + k),
      session_user_id = 1\<rparr>"

definition base_uploads :: files where
  "base_uploads =
     [''electricity_bill'' \<mapsto> ''bill.pdf'', ''cnic_front'' \<mapsto> ''front.png'',
      ''cnic_back'' \<mapsto> ''back.png'']"

definition metering_form_net :: form where
  "metering_form_net =
     [''application_type'' \<mapsto> ''net'', ''system_capacity'' \<mapsto> ''10'',
      ''consumption_units'' \<mapsto> ''450'', ''property_type'' \<mapsto> ''residential'',
      ''property_address'' \<mapsto> ''House 1'', ''ownership_type'' \<mapsto> ''owner'']"


definition owner_uploads :: files where
  "owner_uploads = base_uploads(''land_ownership'' \<mapsto> ''deed.pdf'')"

definition solar_form :: form where
  "solar_form =
     [''system_capacity'' \<mapsto> ''3'', ''property_address'' \<mapsto> ''House 1'',
      ''ownership_type'' \<mapsto> ''tenant'']"


text \<open>
  The requests that get past the parsing and the field checks of \<open>apply_metering\<close>
  (lines 411 to 432) and of \<open>apply_solar_setup\<close> (lines 517 to 529).
\<close>

definition metering_fields_accepted :: "env \<Rightarrow> form \<Rightarrow> bool" where
  "metering_fields_accepted e form \<longleftrightarrow>
     (case form ''system_capacity'' of
        None \<Rightarrow> False
      | Some s \<Rightarrow>
          (case float_of_str e s of
             None \<Rightarrow> False
           | Some c \<Rightarrow>
               (case form ''consumption_units'' of None \<Rightarrow> True | Some u \<Rightarrow> int_of_str e u \<noteq> None)
               \<and> truthy (form ''application_type'') \<and> c \<noteq> 0 \<and> truthy (form ''property_address'')
               \<and> 1 \<le> c \<and> c \<le> 50 \<and> \<not> (form ''application_type'' = Some ''net'' \<and> c < 5)))"

definition solar_fields_accepted :: "env \<Rightarrow> form \<Rightarrow> bool" where
  "solar_fields_accepted e form \<longleftrightarrow>
     (case (case form ''system_capacity'' of None \<Rightarrow> Some 0 | Some s \<Rightarrow> float_of_str e s) of
        None \<Rightarrow> False
      | Some c \<Rightarrow>
          (case form ''consumption_units'' of None \<Rightarrow> True | Some u \<Rightarrow> int_of_str e u \<noteq> None)
          \<and> c \<noteq> 0 \<and> truthy (form ''property_address'') \<and> 1 \<le> c \<and> c \<le> 50)"


text \<open>The outcome of a request that is turned away: the table is unchanged, and the response
  is an exception or a redirect with a message of category \<open>danger\<close>.\<close>

definition refused :: "MeteringApplication list \<Rightarrow> (py_error + response) \<times> MeteringApplication list \<Rightarrow> bool" where
  "refused db result \<longleftrightarrow>
     snd result = db
     \<and> (case fst result of
          Inl err \<Rightarrow> True
        | Inr r \<Rightarrow> (case r of Flash_redirect m category endpoint \<Rightarrow> category = ''danger'' | _ \<Rightarrow> False))"

section \<open>Facts about the estimator\<close>








































section \<open>Facts about the applications\<close>


lemma apply_metering_eval:
  assumes s: "form ''system_capacity'' = Some s"
    and c: "float_of_str e s = Some c"
    and u: "(case form ''consumption_units'' of None \<Rightarrow> Inr 0 | Some s \<Rightarrow> int_str e s) = Inr units"
    and checks: "truthy (form ''application_type'')" "c \<noteq> 0" "truthy (form ''property_address'')"
      "1 \<le> c" "c \<le> 50" "\<not> (form ''application_type'' = Some ''net'' \<and> c < 5)"
    and own: "(case form ''ownership_type'' of None \<Rightarrow> ''owner'' | Some s \<Rightarrow> s) = ownership"
    and noc: "(case form ''noc_message'' of None \<Rightarrow> [] | Some s \<Rightarrow> s) = noc"
    and su: "save_uploads e fs
               ([''electricity_bill'', ''cnic_front'', ''cnic_back'']
                  @ (if ownership = ''owner'' then [''land_ownership''] else [''noc_document'']))
               0 Map.empty = (docs, k)"
  shows "apply_metering e POST form fs db =
     (if ownership = ''tenant'' \<and> docs ''noc_document'' = None \<and> strip noc = []
      then (Inr (Flash_redirect
                   ''Tenants must provide either a NOC document (stamp paper) or a NOC message''
                   ''danger'' ''apply_metering''), db)
      else if missing_docs ([''electricity_bill'', ''cnic_front'', ''cnic_back'']
                  @ (if ownership = ''owner'' then [''land_ownership''] else [])) docs \<noteq> []
      then (Inr (Flash_redirect
                   (missing_message
                      (missing_docs ([''electricity_bill'', ''cnic_front'', ''cnic_back'']
                         @ (if ownership = ''owner'' then [''land_ownership''] else [])) docs))
                   ''danger'' ''apply_metering''), db)
      else
        case commit_add
               \<lparr>app_id = 0,
                user_id = session_user_id e,
                application_type = the (form ''application_type''),
                system_capacity = c,
                consumption_units = units,
                property_type = form ''property_type'',
                property_address = the (form ''property_address''),
                ownership_type = ownership,
                reference_number = generate_reference e k (the (form ''application_type'')),
                status = Some ''pending'',
                submitted_at = utcnow e,
                updated_at = utcnow e,
                documents = docs,
                noc_message = (if ownership = ''tenant'' then Some noc else None),
                admin_notes = None,
                app_estimated_cost = c * 80000\<rparr> db of
          Inl err \<Rightarrow> (Inl err, db)
        | Inr db' \<Rightarrow>
            (Inr (Flash_redirect
                    (''Application submitted successfully! Reference: ''
                       @ generate_reference e k (the (form ''application_type'')))
                    ''success'' ''client_dashboard''), db'))"
proof -
  have fl: "float_str e s = Inr c"
    by (simp add: float_str_def c)
  have range: "\<not> (c < 1 \<or> 50 < c)"
    using checks by simp
  have net: "(form ''application_type'' = Some ''net'' \<and> c < 5) = False"
    using checks(6) by simp
  show ?thesis
    unfolding apply_metering_def Let_def s option.case fl sum.case u own noc su prod.case net
    using checks(1,2,3) range
    by (cases "ownership = ''owner''") (simp_all cong: sum.case_cong)
qed

lemma units_cases:
  "(case form ''consumption_units'' of None \<Rightarrow> True | Some u \<Rightarrow> int_of_str e u \<noteq> None)
     = (\<exists>units. (case form ''consumption_units'' of None \<Rightarrow> Inr 0 | Some s \<Rightarrow> int_str e s) = Inr units)"
  by (auto simp: int_str_def split: option.splits)

lemma apply_metering_field_rejections:
  assumes s: "form ''system_capacity'' = Some s"
    and c: "float_of_str e s = Some c"
    and u: "(case form ''consumption_units'' of None \<Rightarrow> Inr 0 | Some s \<Rightarrow> int_str e s) = Inr units"
  shows "\<not> (truthy (form ''application_type'') \<and> c \<noteq> 0 \<and> truthy (form ''property_address'')) \<Longrightarrow>
           apply_metering e POST form fs db =
             (Inr (Flash_redirect ''All required fields must be filled'' ''danger'' ''apply_metering''), db)"
    and "truthy (form ''application_type'') \<and> c \<noteq> 0 \<and> truthy (form ''property_address'') \<Longrightarrow>
           c < 1 \<or> 50 < c \<Longrightarrow>
           apply_metering e POST form fs db =
             (Inr (Flash_redirect ''System capacity must be between 1kW and 50kW'' ''danger''
                     ''apply_metering''), db)"
    and "truthy (form ''application_type'') \<and> c \<noteq> 0 \<and> truthy (form ''property_address'') \<Longrightarrow>
           \<not> (c < 1 \<or> 50 < c) \<Longrightarrow> form ''application_type'' = Some ''net'' \<and> c < 5 \<Longrightarrow>
           apply_metering e POST form fs db =
             (Inr (Flash_redirect ''Net metering requires system capacity of 5kW or greater''
                     ''danger'' ''apply_metering''), db)"
proof -
  have fl: "float_str e s = Inr c"
    by (simp add: float_str_def c)
  show "\<not> (truthy (form ''application_type'') \<and> c \<noteq> 0 \<and> truthy (form ''property_address'')) \<Longrightarrow>
           apply_metering e POST form fs db =
             (Inr (Flash_redirect ''All required fields must be filled'' ''danger'' ''apply_metering''), db)"
    unfolding apply_metering_def Let_def s option.case fl sum.case u
    by (simp only: if_P if_not_P http_method.simps not_False_eq_True simp_thms)
  show "truthy (form ''application_type'') \<and> c \<noteq> 0 \<and> truthy (form ''property_address'') \<Longrightarrow>
           c < 1 \<or> 50 < c \<Longrightarrow>
           apply_metering e POST form fs db =
             (Inr (Flash_redirect ''System capacity must be between 1kW and 50kW'' ''danger''
                     ''apply_metering''), db)"
    unfolding apply_metering_def Let_def s option.case fl sum.case u
    by (simp only: if_P if_not_P http_method.simps not_False_eq_True simp_thms)
  show "truthy (form ''application_type'') \<and> c \<noteq> 0 \<and> truthy (form ''property_address'') \<Longrightarrow>
           \<not> (c < 1 \<or> 50 < c) \<Longrightarrow> form ''application_type'' = Some ''net'' \<and> c < 5 \<Longrightarrow>
           apply_metering e POST form fs db =
             (Inr (Flash_redirect ''Net metering requires system capacity of 5kW or greater''
                     ''danger'' ''apply_metering''), db)"
    unfolding apply_metering_def Let_def s option.case fl sum.case u
    by (simp only: if_P if_not_P http_method.simps not_False_eq_True simp_thms)
qed

lemma apply_metering_not_accepted:
  assumes "\<not> metering_fields_accepted e form"
  shows "refused db (apply_metering e POST form fs db)"
proof (cases "form ''system_capacity''")
  case None
  then show ?thesis
    by (simp add: apply_metering_def refused_def)
next
  case (Some s)
  note s = this
  show ?thesis
  proof (cases "float_of_str e s")
    case None
    then show ?thesis
      by (simp add: apply_metering_def refused_def s float_str_def)
  next
    case (Some c)
    note c = this
    have fl: "float_str e s = Inr c"
      by (simp add: float_str_def c)
    show ?thesis
    proof (cases "case form ''consumption_units'' of None \<Rightarrow> Inr 0 | Some s \<Rightarrow> int_str e s")
      case (Inl err)
      show ?thesis
        unfolding apply_metering_def Let_def s option.case fl sum.case Inl
        by (simp add: refused_def)
    next
      case (Inr units)
      note rej = apply_metering_field_rejections [OF s c Inr, of fs db]
      let ?present =
        "truthy (form ''application_type'') \<and> c \<noteq> 0 \<and> truthy (form ''property_address'')"
      show ?thesis
      proof (cases ?present)
        case False
        show ?thesis
          by (simp add: rej(1) [OF False] refused_def)
      next
        case True
        note present = this
        show ?thesis
        proof (cases "c < 1 \<or> 50 < c")
          case True
          show ?thesis
            by (simp add: rej(2) [OF present True] refused_def)
        next
          case False
          have net: "form ''application_type'' = Some ''net'' \<and> c < 5"
            using assms Inr units_cases [of e form] present False
            by (auto simp: metering_fields_accepted_def s c)
          show ?thesis
            by (simp add: rej(3) [OF present False net] refused_def)
        qed
      qed
    qed
  qed
qed

lemma refused_not_success:
  "refused db result \<Longrightarrow> result \<noteq> (Inr (Flash_redirect m ''success'' ep), db')"
  by (auto simp: refused_def)





lemma apply_solar_setup_eval:
  assumes cap: "(case form ''system_capacity'' of None \<Rightarrow> Inr 0 | Some s \<Rightarrow> float_str e s) = Inr c"
    and u: "(case form ''consumption_units'' of None \<Rightarrow> Inr 0 | Some s \<Rightarrow> int_str e s) = Inr units"
    and addr: "(case form ''property_address'' of None \<Rightarrow> [] | Some s \<Rightarrow> s) = address"
    and checks: "c \<noteq> 0" "address \<noteq> []" "1 \<le> c" "c \<le> 50"
    and su: "save_uploads e fs [''electricity_bill'', ''cnic_front'', ''cnic_back''] 0 Map.empty
               = (docs, k)"
  shows "apply_solar_setup e POST form fs db =
     (if missing_docs [''electricity_bill'', ''cnic_front'', ''cnic_back''] docs \<noteq> []
      then (Inr (Flash_redirect
                   (missing_message
                      (missing_docs [''electricity_bill'', ''cnic_front'', ''cnic_back''] docs))
                   ''danger'' ''apply_solar_setup''), db)
      else
        case commit_add
               \<lparr>app_id = 0,
                user_id = session_user_id e,
                application_type = ''simple_solar'',
                system_capacity = c,
                consumption_units = units,
                property_type =
                  Some (case form ''property_type'' of None \<Rightarrow> ''residential'' | Some s \<Rightarrow> s),
                property_address = address,
                ownership_type = ''owner'',
                reference_number = generate_reference e k ''simple_solar'',
                status = Some ''pending'',
                submitted_at = utcnow e,
                updated_at = utcnow e,
                documents = docs,
                noc_message = None,
                admin_notes = None,
                app_estimated_cost = c * 80000\<rparr> db of
          Inl err \<Rightarrow> (Inl err, db)
        | Inr db' \<Rightarrow>
            (Inr (Flash_redirect
                    (''Solar setup application submitted! Reference: ''
                       @ generate_reference e k ''simple_solar'')
                    ''success'' ''client_dashboard''), db'))"
proof -
  have range: "\<not> (c < 1 \<or> 50 < c)"
    using checks by simp
  show ?thesis
    unfolding apply_solar_setup_def Let_def cap sum.case u addr su prod.case
    using checks(1,2) range
    by (simp cong: sum.case_cong)
qed

lemma apply_solar_setup_field_rejections:
  assumes cap: "(case form ''system_capacity'' of None \<Rightarrow> Inr 0 | Some s \<Rightarrow> float_str e s) = Inr c"
    and u: "(case form ''consumption_units'' of None \<Rightarrow> Inr 0 | Some s \<Rightarrow> int_str e s) = Inr units"
    and addr: "(case form ''property_address'' of None \<Rightarrow> [] | Some s \<Rightarrow> s) = address"
  shows "\<not> (c \<noteq> 0 \<and> address \<noteq> []) \<Longrightarrow>
           apply_solar_setup e POST form fs db =
             (Inr (Flash_redirect ''All required fields must be filled'' ''danger''
                     ''apply_solar_setup''), db)"
    and "c \<noteq> 0 \<and> address \<noteq> [] \<Longrightarrow> c < 1 \<or> 50 < c \<Longrightarrow>
           apply_solar_setup e POST form fs db =
             (Inr (Flash_redirect ''System capacity must be between 1kW and 50kW'' ''danger''
                     ''apply_solar_setup''), db)"
proof -
  show "\<not> (c \<noteq> 0 \<and> address \<noteq> []) \<Longrightarrow>
           apply_solar_setup e POST form fs db =
             (Inr (Flash_redirect ''All required fields must be filled'' ''danger''
                     ''apply_solar_setup''), db)"
    unfolding apply_solar_setup_def Let_def cap sum.case u addr
    by (simp only: if_P if_not_P http_method.simps not_False_eq_True simp_thms)
  show "c \<noteq> 0 \<and> address \<noteq> [] \<Longrightarrow> c < 1 \<or> 50 < c \<Longrightarrow>
           apply_solar_setup e POST form fs db =
             (Inr (Flash_redirect ''System capacity must be between 1kW and 50kW'' ''danger''
                     ''apply_solar_setup''), db)"
    unfolding apply_solar_setup_def Let_def cap sum.case u addr
    by (simp only: if_P if_not_P http_method.simps not_False_eq_True simp_thms)
qed

lemma truthy_address:
  "truthy v = ((case v of None \<Rightarrow> [] | Some s \<Rightarrow> s) \<noteq> [])"
  by (simp add: truthy_def split: option.splits)

lemma solar_capacity_cases:
  "(case form ''system_capacity'' of None \<Rightarrow> Some 0 | Some s \<Rightarrow> float_of_str e s) = Some c
     \<longleftrightarrow> (case form ''system_capacity'' of None \<Rightarrow> Inr 0 | Some s \<Rightarrow> float_str e s) = Inr c"
  by (auto simp: float_str_def split: option.splits)

lemma solar_capacity_error:
  "(case form ''system_capacity'' of None \<Rightarrow> Some 0 | Some s \<Rightarrow> float_of_str e s) = None
     \<Longrightarrow> (case form ''system_capacity'' of None \<Rightarrow> Inr 0 | Some s \<Rightarrow> float_str e s) = Inl ValueError"
  by (auto simp: float_str_def split: option.splits)

lemma apply_solar_setup_not_accepted:
  assumes "\<not> solar_fields_accepted e form"
  shows "refused db (apply_solar_setup e POST form fs db)"
proof (cases "case form ''system_capacity'' of None \<Rightarrow> Some 0 | Some s \<Rightarrow> float_of_str e s")
  case None
  then have err: "(case form ''system_capacity'' of None \<Rightarrow> Inr 0 | Some s \<Rightarrow> float_str e s)
                    = Inl ValueError"
    by (rule solar_capacity_error)
  show ?thesis
    unfolding apply_solar_setup_def Let_def err
    by (simp add: refused_def)
next
  case (Some c)
  note cap = Some [unfolded solar_capacity_cases]
  define address where "address = (case form ''property_address'' of None \<Rightarrow> [] | Some s \<Rightarrow> s)"
  show ?thesis
  proof (cases "case form ''consumption_units'' of None \<Rightarrow> Inr 0 | Some s \<Rightarrow> int_str e s")
    case (Inl err)
    show ?thesis
      unfolding apply_solar_setup_def Let_def cap sum.case Inl
      by (simp add: refused_def)
  next
    case (Inr units)
    note rej = apply_solar_setup_field_rejections [OF cap Inr address_def [symmetric], of fs db]
    show ?thesis
    proof (cases "c \<noteq> 0 \<and> address \<noteq> []")
      case False
      show ?thesis
        by (simp add: rej(1) [OF False] refused_def)
    next
      case True
      have "c < 1 \<or> 50 < c"
        using assms Inr units_cases [of e form] True
        by (auto simp: solar_fields_accepted_def Some truthy_address address_def)
      then show ?thesis
        by (simp add: rej(2) [OF True] refused_def)
    qed
  qed
qed




lemma apply_metering_success:
  assumes succ: "apply_metering e POST form fs db = (Inr (Flash_redirect m ''success'' ep), db')"
  shows "\<exists>s c t a. form ''system_capacity'' = Some s \<and> float_of_str e s = Some c
           \<and> form ''application_type'' = Some t \<and> commit_add a db = Inr db'
           \<and> application_type a = t \<and> system_capacity a = c \<and> status a = Some ''pending''
           \<and> submitted_at a = utcnow e \<and> updated_at a = utcnow e
           \<and> m = ''Application submitted successfully! Reference: '' @ reference_number a"
proof -
  have acc: "metering_fields_accepted e form"
    using apply_metering_not_accepted [of e form db fs] refused_not_success succ by metis
  then obtain s c where s: "form ''system_capacity'' = Some s"
    and c: "float_of_str e s = Some c"
    and checks: "truthy (form ''application_type'')" "c \<noteq> 0" "truthy (form ''property_address'')"
      "1 \<le> c" "c \<le> 50" "\<not> (form ''application_type'' = Some ''net'' \<and> c < 5)"
    and "case form ''consumption_units'' of None \<Rightarrow> True | Some u \<Rightarrow> int_of_str e u \<noteq> None"
    by (auto simp: metering_fields_accepted_def split: option.splits)
  then obtain units
    where u: "(case form ''consumption_units'' of None \<Rightarrow> Inr 0 | Some s \<Rightarrow> int_str e s) = Inr units"
    by (auto simp: units_cases)
  from checks(1) obtain t where t: "form ''application_type'' = Some t"
    by (auto simp: truthy_def split: option.splits)
  define ownership where "ownership = (case form ''ownership_type'' of None \<Rightarrow> ''owner'' | Some s \<Rightarrow> s)"
  define noc where "noc = (case form ''noc_message'' of None \<Rightarrow> [] | Some s \<Rightarrow> s)"
  obtain docs k where su: "save_uploads e fs
               ([''electricity_bill'', ''cnic_front'', ''cnic_back'']
                  @ (if ownership = ''owner'' then [''land_ownership''] else [''noc_document'']))
               0 Map.empty = (docs, k)"
    by force
  note ev = apply_metering_eval [OF s c u checks ownership_def [symmetric] noc_def [symmetric] su,
      of db]
  define a where "a =
    \<lparr>app_id = 0, user_id = session_user_id e, application_type = the (form ''application_type''),
     system_capacity = c, consumption_units = units, property_type = form ''property_type'',
     property_address = the (form ''property_address''), ownership_type = ownership,
     reference_number = generate_reference e k (the (form ''application_type'')),
     status = Some ''pending'', submitted_at = utcnow e, updated_at = utcnow e, documents = docs,
     noc_message = (if ownership = ''tenant'' then Some noc else None), admin_notes = None,
     app_estimated_cost = c * 80000\<rparr>"
  have "commit_add a db = Inr db'
        \<and> m = ''Application submitted successfully! Reference: '' @ reference_number a"
    using succ unfolding ev a_def [symmetric]
    by (auto simp: a_def split: if_splits sum.splits)
  moreover have "application_type a = t" "system_capacity a = c" "status a = Some ''pending''"
    "submitted_at a = utcnow e" "updated_at a = utcnow e"
    by (simp_all add: a_def t)
  ultimately show ?thesis
    using s c t by blast
qed

lemma apply_solar_setup_success:
  assumes succ: "apply_solar_setup e POST form fs db = (Inr (Flash_redirect m ''success'' ep), db')"
  shows "\<exists>s c a. form ''system_capacity'' = Some s \<and> float_of_str e s = Some c
           \<and> commit_add a db = Inr db'
           \<and> application_type a = ''simple_solar'' \<and> system_capacity a = c
           \<and> status a = Some ''pending''
           \<and> submitted_at a = utcnow e \<and> updated_at a = utcnow e
           \<and> m = ''Solar setup application submitted! Reference: '' @ reference_number a"
proof -
  define address where "address = (case form ''property_address'' of None \<Rightarrow> [] | Some s \<Rightarrow> s)"
  have acc: "solar_fields_accepted e form"
    using apply_solar_setup_not_accepted [of e form db fs] refused_not_success succ by metis
  then obtain c
    where c0: "(case form ''system_capacity'' of None \<Rightarrow> Some 0 | Some s \<Rightarrow> float_of_str e s) = Some c"
    and checks: "c \<noteq> 0" "address \<noteq> []" "1 \<le> c" "c \<le> 50"
    and "case form ''consumption_units'' of None \<Rightarrow> True | Some u \<Rightarrow> int_of_str e u \<noteq> None"
    unfolding solar_fields_accepted_def truthy_address address_def
    by (cases "case form ''system_capacity'' of None \<Rightarrow> Some 0 | Some s \<Rightarrow> float_of_str e s")
      auto
  then obtain units
    where u: "(case form ''consumption_units'' of None \<Rightarrow> Inr 0 | Some s \<Rightarrow> int_str e s) = Inr units"
      and cap: "(case form ''system_capacity'' of None \<Rightarrow> Inr 0 | Some s \<Rightarrow> float_str e s) = Inr c"
    by (auto simp: units_cases solar_capacity_cases)
  from c0 checks(1) obtain s where s: "form ''system_capacity'' = Some s" "float_of_str e s = Some c"
    by (auto split: option.splits)
  obtain docs k
    where su: "save_uploads e fs [''electricity_bill'', ''cnic_front'', ''cnic_back''] 0 Map.empty
                 = (docs, k)"
    by force
  note ev = apply_solar_setup_eval [OF cap u address_def [symmetric] checks su, of db]
  define a where "a =
    \<lparr>app_id = 0, user_id = session_user_id e, application_type = ''simple_solar'',
     system_capacity = c, consumption_units = units,
     property_type = Some (case form ''property_type'' of None \<Rightarrow> ''residential'' | Some s \<Rightarrow> s),
     property_address = address, ownership_type = ''owner'',
     reference_number = generate_reference e k ''simple_solar'',
     status = Some ''pending'', submitted_at = utcnow e, updated_at = utcnow e, documents = docs,
     noc_message = None, admin_notes = None, app_estimated_cost = c * 80000\<rparr>"
  have "commit_add a db = Inr db'
        \<and> m = ''Solar setup application submitted! Reference: '' @ reference_number a"
    using succ unfolding ev a_def [symmetric]
    by (auto simp: a_def split: if_splits sum.splits)
  moreover have "application_type a = ''simple_solar''" "system_capacity a = c"
    "status a = Some ''pending''" "submitted_at a = utcnow e" "updated_at a = utcnow e"
    by (simp_all add: a_def)
  ultimately show ?thesis
    using s by blast
qed

lemma find_snoc:
  "find P (xs @ [x]) = (case find P xs of None \<Rightarrow> (if P x then Some x else None) | Some y \<Rightarrow> Some y)"
  by (induction xs) simp_all

lemma commit_add_lookup:
  assumes "commit_add a db = Inr db'"
  shows "api_application_status (reference_number a) db' =
           Json_ok \<lparr>json_reference_number = reference_number a,
                    json_type = application_type a,
                    json_capacity = system_capacity a,
                    json_status = status a,
                    json_submitted_at = strftime_Y_m_d (submitted_at a),
                    json_updated_at = strftime_Y_m_d (updated_at a)\<rparr>"
proof -
  from assms have fresh: "\<forall>x \<in> set db. reference_number x \<noteq> reference_number a"
    and db': "db' = db @ [a\<lparr>app_id := next_id db\<rparr>]"
    by (auto simp: commit_add_def image_iff split: if_splits)
  from fresh have "find (\<lambda>x. reference_number x = reference_number a) db = None"
    by (simp add: find_None_iff)
  then show ?thesis
    by (simp add: api_application_status_def db' find_snoc)
qed

lemma api_application_status_not_found:
  "(api_application_status ref_number db = Json_error ''Application not found'' 404)
     = (\<forall>a \<in> set db. reference_number a \<noteq> ref_number)"
proof -
  have "(api_application_status ref_number db = Json_error ''Application not found'' 404)
          = (find (\<lambda>a. reference_number a = ref_number) db = None)"
    by (simp add: api_application_status_def split: option.splits)
  then show ?thesis
    by (auto simp: find_None_iff)
qed


lemma admin_update_twice:
  "admin_update s n t2 (admin_update s n t1 a) = (admin_update s n t1 a)\<lparr>updated_at := t2\<rparr>"
  "admin_update s n t2 (admin_update s n t1 a) = admin_update s n t2 a"
  "(admin_update s n t a)\<lparr>status := status a, admin_notes := admin_notes a,
      updated_at := updated_at a\<rparr> = a"
  "app_id (admin_update s n t a) = app_id a"
  by (simp_all add: admin_update_def)

lemma find_map_admin_update:
  "find (\<lambda>a. app_id a = i) (map (\<lambda>a. if app_id a = i then admin_update s n t a else a) db)
     = map_option (admin_update s n t) (find (\<lambda>a. app_id a = i) db)"
  by (induction db) (simp_all add: admin_update_twice(4))

lemma find_None_map_id:
  "find (\<lambda>a. app_id a = i) db = None \<Longrightarrow> map (\<lambda>a. if app_id a = i then f a else a) db = db"
  by (induction db) (simp_all split: if_splits)

lemma admin_application_detail_twice:
  "snd (admin_application_detail e2 POST form i (snd (admin_application_detail e1 POST form i db)))
     = map (\<lambda>a. if app_id a = i then a\<lparr>updated_at := utcnow e2\<rparr> else a)
         (snd (admin_application_detail e1 POST form i db))"
proof (cases "find (\<lambda>a. app_id a = i) db")
  case None
  then show ?thesis
    by (simp add: admin_application_detail_def find_None_map_id)
next
  case (Some a)
  then show ?thesis
    by (simp add: admin_application_detail_def find_map_admin_update o_def admin_update_twice
        cong: if_cong)
qed

text \<open>
  Claim C2. The claim holds of the capacity range and of the net-metering threshold, but
  not of an absent \<open>system_capacity\<close>: \<open>apply_metering\<close> calls \<open>float\<close> on the missing
  field before any check, which raises \<open>TypeError\<close> instead of flashing the message of
  the missing fields. The sibling handler \<open>apply_solar_setup\<close> reads the field with the
  default 0 and does flash the message.
\<close>

theorem apply_metering_absent_capacity_raises:
  "apply_metering e POST [''application_type'' \<mapsto> ''net'', ''property_address'' \<mapsto> ''House 1''] fs db
     = (Inl TypeError, db)
   \<and> apply_solar_setup e POST [''property_address'' \<mapsto> ''House 1''] fs db
     = (Inr (Flash_redirect ''All required fields must be filled'' ''danger'' ''apply_solar_setup''),
        db)"
  by (simp add: apply_metering_def apply_solar_setup_def)





text \<open>
  Claim C7. When either creating handler answers with the success message, the message
  carries the generated reference, and looking that reference up in the new table returns
  the projection of the new row: the reference, the submitted application type, the
  parsed capacity, the status \<open>pending\<close>, and the date of creation as both
  \<open>submitted_at\<close> and \<open>updated_at\<close>. A reference that no row of the table carries is
  answered with the error body and the code 404.
\<close>

theorem status_lookup_round_trip:
  "(apply_metering e POST form fs db = (Inr (Flash_redirect m ''success'' ep), db') \<longrightarrow>
      (\<exists>ref s c t a.
          m = ''Application submitted successfully! Reference: '' @ ref
          \<and> form ''application_type'' = Some t
          \<and> form ''system_capacity'' = Some s \<and> float_of_str e s = Some c
          \<and> db' = db @ [a] \<and> reference_number a = ref \<and> application_type a = t
          \<and> system_capacity a = c \<and> status a = Some ''pending''
          \<and> api_application_status ref db' =
              Json_ok \<lparr>json_reference_number = ref, json_type = t, json_capacity = c,
                       json_status = Some ''pending'',
                       json_submitted_at = strftime_Y_m_d (utcnow e),
                       json_updated_at = strftime_Y_m_d (utcnow e)\<rparr>))
   \<and> (apply_solar_setup e POST form fs db = (Inr (Flash_redirect m ''success'' ep), db') \<longrightarrow>
        (\<exists>ref s c a.
            m = ''Solar setup application submitted! Reference: '' @ ref
            \<and> form ''system_capacity'' = Some s \<and> float_of_str e s = Some c
            \<and> db' = db @ [a] \<and> reference_number a = ref \<and> application_type a = ''simple_solar''
            \<and> system_capacity a = c \<and> status a = Some ''pending''
            \<and> api_application_status ref db' =
                Json_ok \<lparr>json_reference_number = ref, json_type = ''simple_solar'',
                         json_capacity = c, json_status = Some ''pending'',
                         json_submitted_at = strftime_Y_m_d (utcnow e),
                         json_updated_at = strftime_Y_m_d (utcnow e)\<rparr>))
   \<and> ((\<forall>a \<in> set db. reference_number a \<noteq> ref_number) \<longrightarrow>
        api_application_status ref_number db = Json_error ''Application not found'' 404)"
proof (intro conjI impI)
  assume "apply_metering e POST form fs db = (Inr (Flash_redirect m ''success'' ep), db')"
  then obtain s c t a where f: "form ''system_capacity'' = Some s" "float_of_str e s = Some c"
    "form ''application_type'' = Some t"
    and add: "commit_add a db = Inr db'"
    and a: "application_type a = t" "system_capacity a = c" "status a = Some ''pending''"
      "submitted_at a = utcnow e" "updated_at a = utcnow e"
    and m: "m = ''Application submitted successfully! Reference: '' @ reference_number a"
    using apply_metering_success by blast
  from add have db': "db' = db @ [a\<lparr>app_id := next_id db\<rparr>]"
    by (auto simp: commit_add_def split: if_splits)
  show "\<exists>ref s c t a.
          m = ''Application submitted successfully! Reference: '' @ ref
          \<and> form ''application_type'' = Some t
          \<and> form ''system_capacity'' = Some s \<and> float_of_str e s = Some c
          \<and> db' = db @ [a] \<and> reference_number a = ref \<and> application_type a = t
          \<and> system_capacity a = c \<and> status a = Some ''pending''
          \<and> api_application_status ref db' =
              Json_ok \<lparr>json_reference_number = ref, json_type = t, json_capacity = c,
                       json_status = Some ''pending'',
                       json_submitted_at = strftime_Y_m_d (utcnow e),
                       json_updated_at = strftime_Y_m_d (utcnow e)\<rparr>"
    using commit_add_lookup [OF add] f m db'
    by (intro exI [of _ "reference_number a"] exI [of _ s] exI [of _ c] exI [of _ t]
        exI [of _ "a\<lparr>app_id := next_id db\<rparr>"]) (simp add: a)
next
  assume "apply_solar_setup e POST form fs db = (Inr (Flash_redirect m ''success'' ep), db')"
  then obtain s c a where f: "form ''system_capacity'' = Some s" "float_of_str e s = Some c"
    and add: "commit_add a db = Inr db'"
    and a: "application_type a = ''simple_solar''" "system_capacity a = c"
      "status a = Some ''pending''" "submitted_at a = utcnow e" "updated_at a = utcnow e"
    and m: "m = ''Solar setup application submitted! Reference: '' @ reference_number a"
    using apply_solar_setup_success by blast
  from add have db': "db' = db @ [a\<lparr>app_id := next_id db\<rparr>]"
    by (auto simp: commit_add_def split: if_splits)
  show "\<exists>ref s c a.
            m = ''Solar setup application submitted! Reference: '' @ ref
            \<and> form ''system_capacity'' = Some s \<and> float_of_str e s = Some c
            \<and> db' = db @ [a] \<and> reference_number a = ref \<and> application_type a = ''simple_solar''
            \<and> system_capacity a = c \<and> status a = Some ''pending''
            \<and> api_application_status ref db' =
                Json_ok \<lparr>json_reference_number = ref, json_type = ''simple_solar'',
                         json_capacity = c, json_status = Some ''pending'',
                         json_submitted_at = strftime_Y_m_d (utcnow e),
                         json_updated_at = strftime_Y_m_d (utcnow e)\<rparr>"
    using commit_add_lookup [OF add] f m db'
    by (intro exI [of _ "reference_number a"] exI [of _ s] exI [of _ c]
        exI [of _ "a\<lparr>app_id := next_id db\<rparr>"]) (simp add: a)
next
  assume "\<forall>a \<in> set db. reference_number a \<noteq> ref_number"
  then show "api_application_status ref_number db = Json_error ''Application not found'' 404"
    by (simp add: api_application_status_not_found)
qed


lemma example_metering_created:
  "fst (apply_metering example_env POST metering_form_net owner_uploads [])
     = Inr (Flash_redirect ''Application submitted successfully! Reference: NET-20240309-1004''
              ''success'' ''client_dashboard'')"
  by (simp add: apply_metering_def example_env_def base_uploads_def owner_uploads_def
      metering_form_net_def float_str_def int_str_def
      parse_nat_def truthy_def strip_def missing_docs_def missing_message_def
      commit_add_def generate_reference_def strftime_Ymd_def zfill_def str_nat.simps
      digit_char_def)

lemma example_solar_created:
  "fst (apply_solar_setup example_env POST solar_form base_uploads [])
     = Inr (Flash_redirect ''Solar setup application submitted! Reference: SOL-20240309-1003''
              ''success'' ''client_dashboard'')"
  by (simp add: apply_solar_setup_def example_env_def base_uploads_def
      solar_form_def float_str_def int_str_def
      parse_nat_def truthy_def strip_def missing_docs_def missing_message_def
      commit_add_def generate_reference_def strftime_Ymd_def zfill_def str_nat.simps
      digit_char_def)

lemma example_env_values:
  "float_of_str example_env ''10'' = Some 10"
  "float_of_str example_env ''3'' = Some 3"
  "strftime_Y_m_d (utcnow example_env) = ''2024-03-09''"
  by (simp_all add: example_env_def parse_nat_def strftime_Y_m_d_def zfill_def str_nat.simps
      digit_char_def)

theorem status_lookup_round_trip_witness:
  "apply_metering example_env POST metering_form_net owner_uploads []
     = (Inr (Flash_redirect ''Application submitted successfully! Reference: NET-20240309-1004''
               ''success'' ''client_dashboard''),
        snd (apply_metering example_env POST metering_form_net owner_uploads []))
   \<and> api_application_status ''NET-20240309-1004''
         (snd (apply_metering example_env POST metering_form_net owner_uploads []))
       = Json_ok \<lparr>json_reference_number = ''NET-20240309-1004'', json_type = ''net'',
                  json_capacity = 10, json_status = Some ''pending'',
                  json_submitted_at = ''2024-03-09'', json_updated_at = ''2024-03-09''\<rparr>
   \<and> apply_solar_setup example_env POST solar_form base_uploads []
     = (Inr (Flash_redirect ''Solar setup application submitted! Reference: SOL-20240309-1003''
               ''success'' ''client_dashboard''),
        snd (apply_solar_setup example_env POST solar_form base_uploads []))
   \<and> api_application_status ''SOL-20240309-1003''
         (snd (apply_solar_setup example_env POST solar_form base_uploads []))
       = Json_ok \<lparr>json_reference_number = ''SOL-20240309-1003'', json_type = ''simple_solar'',
                  json_capacity = 3, json_status = Some ''pending'',
                  json_submitted_at = ''2024-03-09'', json_updated_at = ''2024-03-09''\<rparr>
   \<and> api_application_status ''NET-20240309-9999''
         (snd (apply_metering example_env POST metering_form_net owner_uploads []))
       = Json_error ''Application not found'' 404"
proof -
  let ?m = "apply_metering example_env POST metering_form_net owner_uploads []"
  let ?s = "apply_solar_setup example_env POST solar_form base_uploads []"
  have m: "?m = (Inr (Flash_redirect
                        ''Application submitted successfully! Reference: NET-20240309-1004''
                        ''success'' ''client_dashboard''), snd ?m)"
    using example_metering_created by (simp add: prod_eq_iff)
  have s: "?s = (Inr (Flash_redirect
                        ''Solar setup application submitted! Reference: SOL-20240309-1003''
                        ''success'' ''client_dashboard''), snd ?s)"
    using example_solar_created by (simp add: prod_eq_iff)
  have form: "metering_form_net ''application_type'' = Some ''net''"
    "metering_form_net ''system_capacity'' = Some ''10''"
    "solar_form ''system_capacity'' = Some ''3''"
    by (simp_all add: metering_form_net_def solar_form_def)
  note rt = status_lookup_round_trip
  from rt [THEN conjunct1, rule_format, OF m]
  obtain a where lookup_m: "api_application_status ''NET-20240309-1004'' (snd ?m)
       = Json_ok \<lparr>json_reference_number = ''NET-20240309-1004'', json_type = ''net'',
                  json_capacity = 10, json_status = Some ''pending'',
                  json_submitted_at = ''2024-03-09'', json_updated_at = ''2024-03-09''\<rparr>"
    and db: "snd ?m = [a]" "reference_number a = ''NET-20240309-1004''"
    by (auto simp: form example_env_values)
  from rt [THEN conjunct2, THEN conjunct1, rule_format, OF s]
  have lookup_s: "api_application_status ''SOL-20240309-1003'' (snd ?s)
       = Json_ok \<lparr>json_reference_number = ''SOL-20240309-1003'', json_type = ''simple_solar'',
                  json_capacity = 3, json_status = Some ''pending'',
                  json_submitted_at = ''2024-03-09'', json_updated_at = ''2024-03-09''\<rparr>"
    by (auto simp: form example_env_values)
  have fresh: "\<forall>a \<in> set (snd ?m). reference_number a \<noteq> ''NET-20240309-9999''"
    by (simp add: db)
  from rt [THEN conjunct2, THEN conjunct2, THEN mp, OF fresh]
  have "api_application_status ''NET-20240309-9999'' (snd ?m)
          = Json_error ''Application not found'' 404" .
  with m s lookup_m lookup_s show ?thesis
    by blast
qed

text \<open>
  Claim C8. The update overwrites \<open>status\<close>, \<open>admin_notes\<close> and \<open>updated_at\<close> of the row
  with the given id and nothing else: putting the three old values back gives the old
  row, so the application type, the capacity, the reference, the documents and the date
  of submission are untouched. It is idempotent up to the time stamp: a second update
  with the same status and notes changes \<open>updated_at\<close> only, on the row and on the
  table.
\<close>

theorem admin_update_idempotent:
  "snd (admin_application_detail e POST form i db)
     = map (\<lambda>a. if app_id a = i
                 then a\<lparr>status := form ''status'', admin_notes := form ''admin_notes'',
                         updated_at := utcnow e\<rparr>
                 else a) db
   \<and> (admin_update s n t a)\<lparr>status := status a, admin_notes := admin_notes a,
        updated_at := updated_at a\<rparr> = a
   \<and> application_type (admin_update s n t a) = application_type a
   \<and> system_capacity (admin_update s n t a) = system_capacity a
   \<and> reference_number (admin_update s n t a) = reference_number a
   \<and> documents (admin_update s n t a) = documents a
   \<and> submitted_at (admin_update s n t a) = submitted_at a
   \<and> admin_update s n t2 (admin_update s n t1 a) = (admin_update s n t1 a)\<lparr>updated_at := t2\<rparr>
   \<and> snd (admin_application_detail e2 POST form i (snd (admin_application_detail e POST form i db)))
       = map (\<lambda>a. if app_id a = i then a\<lparr>updated_at := utcnow e2\<rparr> else a)
           (snd (admin_application_detail e POST form i db))"
proof -
  have "snd (admin_application_detail e POST form i db)
     = map (\<lambda>a. if app_id a = i
                 then a\<lparr>status := form ''status'', admin_notes := form ''admin_notes'',
                         updated_at := utcnow e\<rparr>
                 else a) db"
    by (cases "find (\<lambda>a. app_id a = i) db")
      (simp_all add: admin_application_detail_def find_None_map_id admin_update_def)
  then show ?thesis
    using admin_application_detail_twice [of e2 form i e db]
    by (simp add: admin_update_def)
qed

end
